theory Spec2Isabelle
  imports Complex_Main "HOL-Library.FSet"
begin

section \<open>Data model of the music cog (cogs/music.py)\<close>

text \<open>
  The cog works on objects of the chat library (members, roles, voice channels, the
  voice client) and on the \<open>Player\<close> of \<open>cogs/utils/music_player\<close>. Only the attributes
  that \<open>cogs/music.py\<close> reads or writes are kept. Identifiers are Python integers.
  Members and roles are compared by id, as the library's \<open>__eq__\<close> does.
\<close>

record role =
  role_id :: int
  role_name :: string

record member =
  member_id :: int
  is_bot :: bool
  manage_guild :: bool
  roles :: "role list"

record channel =
  channel_id :: int
  members :: "member list"

text \<open>What \<open>voice.is_playing()\<close> and \<open>voice.is_paused()\<close> report about the voice client.\<close>

datatype sink_state = SinkIdle | SinkPlaying | SinkPaused

record voice_client =
  channel :: channel
  sink :: sink_state
  voice_volume :: rat

record song =
  title :: string
  url :: string
  requester :: int
  source_volume :: rat

text \<open>
  The attributes of \<open>Player\<close> that the cog touches: \<open>voice\<close>, \<open>current\<close>, \<open>songs\<close>,
  \<open>volume\<close>, \<open>loop\<close>, \<open>loop_queue\<close>, \<open>notify\<close>, \<open>text_channel\<close> and the dictionary
  \<open>_votes\<close> from a command name to the set of ids that voted for it. Python's
  \<open>volume / 100\<close> is a true division; the stored volume is kept as the exact quotient.
\<close>

record player =
  voice :: "voice_client option"
  current :: "song option"
  songs :: "song list"
  volume :: rat
  loop :: bool
  loop_queue :: bool
  notify :: bool
  text_channel :: int
  p_votes :: "string \<rightharpoonup> int fset"

text \<open>The invocation context: who calls, the roles of the guild, and \<open>ctx.player\<close>.\<close>

record ctx =
  author :: member
  guild_roles :: "role list"
  ctx_player :: "player option"

datatype error =
    AttributeError
  | KeyError
  | IndexError
  | TypeError
  | CheckFailure
  | PostError
  | YTDLError

text \<open>The messages the cog sends, one constructor per message template of the source.\<close>

datatype message =
    NoPlayer
  | VoteAdded string nat nat
  | AlreadyVoted string
  | VolumeInfo rat
  | NothingPlayedAtTheMoment
  | VolumeMustBeBetween
  | VolumeSet int
  | PausedSong string
  | ResumingSong string
  | StoppedAndCleared
  | NothingToSkip
  | NothingToShuffle
  | NothingToRemove
  | ShuffledSongs
  | RemovedSong string
  | NowLooping string
  | NoLongerLooping string
  | NothingBeingPlayed
  | QueueEmptyNothingToLoop
  | NowLoopingQueue
  | NoLongerLoopingQueue
  | CouldntSaveQueue
  | SavedQueue string
  | Searching string
  | ErrorProcessing
  | TimedOutFetching
  | CouldntFetch
  | EnqueuedSong string
  | NowPlayingSong string
  | FetchingPlaylist string
  | EnqueuedPlaylist nat nat

text \<open>What a handler does to the outside, in order.\<close>

datatype event =
    Send message
  | AddReaction
  | PlayerPause
  | PlayerResume
  | PlayerStop
  | VoiceStop
  | Post string

text \<open>
  A handler returns the player it leaves behind, the events it produced, and the
  exception that ended it, if any. State written before an exception stays written.
\<close>

type_synonym result = "player option \<times> event list \<times> error option"

type_synonym presult = "player \<times> event list \<times> error option"

section \<open>The privilege predicate\<close>

text \<open>\<open>discord.utils.get(roles, name=n)\<close>: the first role with that name, or \<open>None\<close>.\<close>

definition utils_get :: "role list \<Rightarrow> string \<Rightarrow> role option" where
  "utils_get rs n = find (\<lambda>r. role_name r = n) rs"

text \<open>\<open>r in author.roles\<close> for a possibly absent role \<open>r\<close>: \<open>None\<close> is in no role list.\<close>

definition role_in :: "role option \<Rightarrow> role list \<Rightarrow> bool" where
  "role_in r rs = (case r of None \<Rightarrow> False | Some r' \<Rightarrow> (\<exists>x \<in> set rs. role_id x = role_id r'))"

definition dev :: int where
  "dev = 224513210471022592"

definition is_dj :: "ctx \<Rightarrow> bool" where
  "is_dj c =
     (let a = author c;
          upper = utils_get (guild_roles c) ''DJ'';
          lower = utils_get (guild_roles c) ''dj''
      in manage_guild a \<or> role_in upper (roles a) \<or> role_in lower (roles a) \<or> member_id a = dev)"

text \<open>
  \<open>commands.check(predicate)\<close>, the decorator that \<open>is_dj()\<close> returns: the callback runs
  only when the predicate holds; otherwise the invocation ends with a check failure and
  the callback is never entered.
\<close>

definition commands_check :: "(ctx \<Rightarrow> bool) \<Rightarrow> (ctx \<Rightarrow> result) \<Rightarrow> ctx \<Rightarrow> result" where
  "commands_check predicate callback c =
     (if predicate c then callback c else (ctx_player c, [], Some CheckFailure))"

section \<open>The vote gate\<close>

text \<open>
  \<open>run_func\<close> of \<open>Music.votes\<close>: the action is called with the parameter when the
  parameter is truthy (neither \<open>None\<close> nor 0), and without an argument otherwise. The
  action receives \<open>None\<close> for a call without argument.
\<close>

definition run_func :: "(int option \<Rightarrow> player \<Rightarrow> presult) \<Rightarrow> int option \<Rightarrow> player \<Rightarrow> result" where
  "run_func func param p =
     (let (p', ev, e) = (if param \<noteq> None \<and> param \<noteq> Some 0 then func param p else func None p)
      in (Some p', ev, e))"

text \<open>
  \<open>Music.votes\<close>. The occupant count is \<open>len(ctx.player.voice.channel.members)\<close>, the
  length of the member list as the library gives it. \<open>required_votes\<close> is unbound in
  the source when the count is below 3; it is only read on the other branches.
\<close>

definition votes :: "ctx \<Rightarrow> string \<Rightarrow> (int option \<Rightarrow> player \<Rightarrow> presult) \<Rightarrow> int option \<Rightarrow> result" where
  "votes c cmd func param =
     (case ctx_player c of
        None \<Rightarrow> (None, [], Some AttributeError)
      | Some p \<Rightarrow>
          (case current p of
             None \<Rightarrow> (Some p, [], Some AttributeError)
           | Some cur \<Rightarrow>
               (case voice p of
                  None \<Rightarrow> (Some p, [], Some AttributeError)
                | Some v \<Rightarrow>
                    (let voter = author c;
                         if_is_requester = (member_id voter = requester cur);
                         if_has_perms = manage_guild voter;
                         upper = utils_get (guild_roles c) ''DJ'';
                         lower = utils_get (guild_roles c) ''dj'';
                         if_is_dj = (role_in upper (roles voter) \<or> role_in lower (roles voter));
                         n = length (members (channel v));
                         is_only_user = (n < 3);
                         required_votes = (if n < 5 then n - 1 else 3)
                     in if if_is_requester \<or> if_has_perms \<or> is_only_user \<or> if_is_dj
                        then run_func func param p
                        else
                          (case p_votes p cmd of
                             None \<Rightarrow> (Some p, [], Some KeyError)
                           | Some s \<Rightarrow>
                               if member_id voter |\<notin>| s then
                                 (let s' = finsert (member_id voter) s;
                                      total_votes = fcard s'
                                  in if total_votes \<ge> required_votes
                                     then run_func func param (p\<lparr>p_votes := (p_votes p)(cmd \<mapsto> {||})\<rparr>)
                                     else (Some (p\<lparr>p_votes := (p_votes p)(cmd \<mapsto> s')\<rparr>),
                                           [Send (VoteAdded cmd total_votes required_votes)], None))
                               else (Some p, [Send (AlreadyVoted cmd)], None))))))"

text \<open>
  The caller holds one of the bypass conditions that \<open>Music.votes\<close> tests on the caller
  and the player: requester of the current song, the manage-guild permission, or a role
  named DJ or dj.
\<close>

definition caller_bypass :: "ctx \<Rightarrow> song \<Rightarrow> bool" where
  "caller_bypass c cur =
     (member_id (author c) = requester cur \<or> manage_guild (author c)
      \<or> role_in (utils_get (guild_roles c) ''DJ'') (roles (author c))
      \<or> role_in (utils_get (guild_roles c) ''dj'') (roles (author c)))"

section \<open>Player methods and queue operations used by the cog\<close>

text \<open>
  Modelled from the spec: the class \<open>Player\<close> (\<open>cogs/utils/music_player\<close>) is not among
  the sources, so its property \<open>is_playing\<close> follows the state machine of the spec: the
  states Playing and Paused are those with a voice connection and a current song.
\<close>

definition is_playing :: "player \<Rightarrow> bool" where
  "is_playing p = (voice p \<noteq> None \<and> current p \<noteq> None)"

text \<open>
  Modelled from the spec: \<open>Player.pause\<close> is not among the sources. The spec gives the
  transition Playing to Paused; in every other state nothing changes.
\<close>

definition player_pause :: "player \<Rightarrow> player" where
  "player_pause p =
     (case voice p of
        None \<Rightarrow> p
      | Some v \<Rightarrow> if sink v = SinkPlaying then p\<lparr>voice := Some (v\<lparr>sink := SinkPaused\<rparr>)\<rparr> else p)"

text \<open>
  Modelled from the spec: \<open>Player.resume\<close> is not among the sources. The spec gives the
  transition Paused to Playing; in every other state nothing changes.
\<close>

definition player_resume :: "player \<Rightarrow> player" where
  "player_resume p =
     (case voice p of
        None \<Rightarrow> p
      | Some v \<Rightarrow> if sink v = SinkPaused then p\<lparr>voice := Some (v\<lparr>sink := SinkPlaying\<rparr>)\<rparr> else p)"

text \<open>
  Modelled from the spec: \<open>Player.stop\<close> is not among the sources. The spec has it cancel
  the playback driver and release the voice connection.
\<close>

definition player_stop :: "player \<Rightarrow> player" where
  "player_stop p = p\<lparr>voice := None\<rparr>"

section \<open>Commands behind the vote gate\<close>

text \<open>
  \<open>Player.skip\<close>, \<open>SongQueue.shuffle\<close>, \<open>SongQueue.__getitem__\<close> and \<open>SongQueue.remove\<close>
  are not among the sources; the commands take them as parameters. The shuffle parameter
  is the rearrangement that the random shuffle produced.
\<close>

definition skip_song :: "(player \<Rightarrow> player) \<Rightarrow> int option \<Rightarrow> player \<Rightarrow> presult" where
  "skip_song skip_impl arg p =
     (case arg of
        Some _ \<Rightarrow> (p, [], Some TypeError)
      | None \<Rightarrow> (skip_impl p, [AddReaction], None))"

definition music_skip :: "(player \<Rightarrow> player) \<Rightarrow> ctx \<Rightarrow> result" where
  "music_skip skip_impl c =
     (case ctx_player c of
        None \<Rightarrow> (None, [Send NoPlayer], None)
      | Some p \<Rightarrow>
          if \<not> is_playing p then (Some p, [Send NothingToSkip], None)
          else votes c ''skip'' (skip_song skip_impl) None)"

definition shuffle_queue :: "(song list \<Rightarrow> song list) \<Rightarrow> int option \<Rightarrow> player \<Rightarrow> presult" where
  "shuffle_queue shuffle_impl arg p =
     (case arg of
        Some _ \<Rightarrow> (p, [], Some TypeError)
      | None \<Rightarrow> (p\<lparr>songs := shuffle_impl (songs p)\<rparr>, [Send ShuffledSongs], None))"

definition music_shuffle :: "(song list \<Rightarrow> song list) \<Rightarrow> ctx \<Rightarrow> result" where
  "music_shuffle shuffle_impl c =
     (case ctx_player c of
        None \<Rightarrow> (None, [Send NoPlayer], None)
      | Some p \<Rightarrow>
          if length (songs p) = 0 then (Some p, [Send NothingToShuffle], None)
          else votes c ''shuffle'' (shuffle_queue shuffle_impl) None)"

definition remove_song ::
  "(song list \<Rightarrow> int \<Rightarrow> error + song) \<Rightarrow> (song list \<Rightarrow> int \<Rightarrow> error + song list)
   \<Rightarrow> int option \<Rightarrow> player \<Rightarrow> presult" where
  "remove_song getitem remove_impl arg p =
     (case arg of
        None \<Rightarrow> (p, [], Some TypeError)
      | Some index \<Rightarrow>
          (case getitem (songs p) (index - 1) of
             Inl e \<Rightarrow> (p, [], Some e)
           | Inr s \<Rightarrow>
               (case remove_impl (songs p) (index - 1) of
                  Inl e \<Rightarrow> (p, [], Some e)
                | Inr q \<Rightarrow> (p\<lparr>songs := q\<rparr>, [Send (RemovedSong (title s))], None))))"

definition music_queue_remove ::
  "(song list \<Rightarrow> int \<Rightarrow> error + song) \<Rightarrow> (song list \<Rightarrow> int \<Rightarrow> error + song list)
   \<Rightarrow> ctx \<Rightarrow> int \<Rightarrow> result" where
  "music_queue_remove getitem remove_impl c index =
     (case ctx_player c of
        None \<Rightarrow> (None, [Send NoPlayer], None)
      | Some p \<Rightarrow>
          if length (songs p) = 0 then (Some p, [Send NothingToRemove], None)
          else votes c ''remove'' (remove_song getitem remove_impl) (Some index))"

section \<open>Volume, pause, resume, stop\<close>

text \<open>
  \<open>Music.volume\<close> carries no check decorator. The range test of the source is the chained
  comparison \<open>0 > volume > 100\<close>, which Python reads as \<open>0 > volume and volume > 100\<close>.
\<close>

definition music_volume :: "ctx \<Rightarrow> int option \<Rightarrow> result" where
  "music_volume c vol =
     (case ctx_player c of
        None \<Rightarrow> (None, [Send NoPlayer], None)
      | Some p \<Rightarrow>
          (case (if vol = Some 0 then None else vol) of
             None \<Rightarrow> (Some p, [Send (VolumeInfo (volume p * 100))], None)
           | Some v \<Rightarrow>
               if \<not> is_playing p then (Some p, [Send NothingPlayedAtTheMoment], None)
               else if 0 > v \<and> v > 100 then (Some p, [Send VolumeMustBeBetween], None)
               else
                 (let p1 = p\<lparr>volume := of_int v / 100\<rparr>
                  in case voice p1 of
                       None \<Rightarrow> (Some p1, [], Some AttributeError)
                     | Some vc \<Rightarrow>
                         (let p2 = p1\<lparr>voice := Some (vc\<lparr>voice_volume := of_int v / 100\<rparr>)\<rparr>
                          in case current p2 of
                               None \<Rightarrow> (Some p2, [], Some AttributeError)
                             | Some s \<Rightarrow>
                                 (Some (p2\<lparr>current := Some (s\<lparr>source_volume := of_int v / 100\<rparr>)\<rparr>),
                                  [Send (VolumeSet v)], None)))))"

definition pause_callback :: "ctx \<Rightarrow> result" where
  "pause_callback c =
     (case ctx_player c of
        None \<Rightarrow> (None, [Send NoPlayer], None)
      | Some p \<Rightarrow>
          if \<not> is_playing p then (Some p, [], None)
          else
            (case voice p of
               None \<Rightarrow> (Some p, [], Some AttributeError)
             | Some v \<Rightarrow>
                 if sink v = SinkPlaying then
                   (let p' = player_pause p
                    in case current p' of
                         None \<Rightarrow> (Some p', [PlayerPause], Some AttributeError)
                       | Some s \<Rightarrow> (Some p', [PlayerPause, Send (PausedSong (title s))], None))
                 else (Some p, [], None)))"

definition resume_callback :: "ctx \<Rightarrow> result" where
  "resume_callback c =
     (case ctx_player c of
        None \<Rightarrow> (None, [Send NoPlayer], None)
      | Some p \<Rightarrow>
          if \<not> is_playing p then (Some p, [], None)
          else
            (case voice p of
               None \<Rightarrow> (Some p, [], Some AttributeError)
             | Some v \<Rightarrow>
                 if sink v = SinkPaused then
                   (let p' = player_resume p
                    in case current p' of
                         None \<Rightarrow> (Some p', [PlayerResume], Some AttributeError)
                       | Some s \<Rightarrow> (Some p', [PlayerResume, Send (ResumingSong (title s))], None))
                 else (Some p, [], None)))"

text \<open>\<open>voice.stop()\<close> of the library ends the stream: the voice client is idle afterwards.\<close>

definition stop_callback :: "ctx \<Rightarrow> result" where
  "stop_callback c =
     (case ctx_player c of
        None \<Rightarrow> (None, [Send NoPlayer], None)
      | Some p \<Rightarrow>
          (let cleared = (\<lambda>q. q\<lparr>songs := [], loop := False, loop_queue := False\<rparr>)
           in if is_playing p then
                (case voice p of
                   None \<Rightarrow> (Some p, [], Some AttributeError)
                 | Some v \<Rightarrow>
                     (Some (cleared (p\<lparr>voice := Some (v\<lparr>sink := SinkIdle\<rparr>)\<rparr>)),
                      [VoiceStop, Send StoppedAndCleared], None))
              else (Some (cleared p), [Send StoppedAndCleared], None)))"

text \<open>The three commands that carry \<open>@is_dj()\<close>.\<close>

definition music_pause :: "ctx \<Rightarrow> result" where
  "music_pause = commands_check is_dj pause_callback"

definition music_resume :: "ctx \<Rightarrow> result" where
  "music_resume = commands_check is_dj resume_callback"

definition music_stop :: "ctx \<Rightarrow> result" where
  "music_stop = commands_check is_dj stop_callback"

section \<open>Loop modes\<close>

definition music_loop :: "ctx \<Rightarrow> result" where
  "music_loop c =
     (case ctx_player c of
        None \<Rightarrow> (None, [Send NoPlayer], None)
      | Some p \<Rightarrow>
          if \<not> is_playing p \<and> \<not> loop p then (Some p, [Send NothingPlayedAtTheMoment], None)
          else
            (let p' = p\<lparr>loop := \<not> loop p, loop_queue := False\<rparr>
             in case current p' of
                  None \<Rightarrow> (Some p', [], Some AttributeError)
                | Some s \<Rightarrow>
                    (Some p',
                     [Send (if loop p' then NowLooping (title s) else NoLongerLooping (title s))],
                     None)))"

definition music_loop_queue :: "ctx \<Rightarrow> result" where
  "music_loop_queue c =
     (case ctx_player c of
        None \<Rightarrow> (None, [Send NoPlayer], None)
      | Some p \<Rightarrow>
          if \<not> is_playing p \<and> \<not> loop_queue p then (Some p, [Send NothingBeingPlayed], None)
          else if length (songs p) = 0 \<and> \<not> loop_queue p
          then (Some p, [Send QueueEmptyNothingToLoop], None)
          else
            (let p' = p\<lparr>loop_queue := \<not> loop_queue p, loop := False\<rparr>
             in (Some p', [Send (if loop_queue p' then NowLoopingQueue else NoLongerLoopingQueue)],
                 None)))"

section \<open>Leaving the voice channel\<close>

text \<open>
  The registry \<open>self.players\<close>, from guild id to player. A handler that holds a player
  holds the object the registry refers to; the model writes the changed player back.
\<close>

type_synonym registry = "int \<rightharpoonup> player"

text \<open>A voice state update as the library dispatches it: member, before, after.\<close>

record voice_update =
  vu_member :: member
  vu_before :: "channel option"
  vu_after :: "channel option"

text \<open>\<open>[m for m in player.voice.channel.members if not m.bot]\<close>\<close>

definition non_automated :: "member list \<Rightarrow> member list" where
  "non_automated ms = filter (\<lambda>m. \<not> is_bot m) ms"

text \<open>
  The local predicate \<open>check\<close> of \<open>on_voice_leave\<close>, for the channel the player is
  connected to. Channels are compared by id.
\<close>

definition check :: "channel \<Rightarrow> voice_update \<Rightarrow> bool" where
  "check ch u =
     (\<not> is_bot (vu_member u)
      \<and> (case vu_after u of None \<Rightarrow> False | Some af \<Rightarrow> channel_id af = channel_id ch))"

text \<open>
  \<open>bot.wait_for(event, timeout=t, check=chk)\<close>: the updates dispatched while the handler
  waits come with the seconds elapsed since the wait began; the call returns the first
  one before the timeout that satisfies the predicate, and \<open>None\<close> stands for
  \<open>asyncio.TimeoutError\<close>.
\<close>

definition wait_for :: "nat \<Rightarrow> (voice_update \<Rightarrow> bool) \<Rightarrow> (nat \<times> voice_update) list \<Rightarrow> voice_update option" where
  "wait_for t chk upds = map_option snd (find (\<lambda>tu. fst tu < t \<and> chk (snd tu)) upds)"

text \<open>\<open>sep.join(xs)\<close>\<close>

fun str_join :: "string \<Rightarrow> string list \<Rightarrow> string" where
  "str_join sep [] = []"
| "str_join sep [x] = x"
| "str_join sep (x # y # ys) = x @ sep @ str_join sep (y # ys)"

text \<open>
  \<open>Music.post\<close>: the paste service either answers with a key or the request fails with
  an exception. The function as written never returns \<open>None\<close>; the option in its result
  type is there for the caller's test \<open>url is None\<close>.
\<close>

datatype http_outcome = HttpFailed | HttpKey string

definition post :: "string \<Rightarrow> http_outcome \<Rightarrow> error + string option" where
  "post content h =
     (case h of
        HttpFailed \<Rightarrow> Inl PostError
      | HttpKey k \<Rightarrow> Inr (Some (''https://mystb.in'' @ ''/'' @ k)))"

text \<open>
  \<open>Music.on_voice_leave\<close>, for one update of member \<open>mem\<close> in guild \<open>gid\<close>. \<open>upds\<close> are
  the updates dispatched during the wait and \<open>h\<close> is what the paste service does if it
  is asked. Nothing else touches the player while the handler waits. The result is the
  registry, the events, and the exception that ended the handler, if any.
\<close>

definition on_voice_leave ::
  "registry \<Rightarrow> int \<Rightarrow> member \<Rightarrow> (nat \<times> voice_update) list \<Rightarrow> http_outcome
   \<Rightarrow> registry \<times> event list \<times> error option" where
  "on_voice_leave players gid mem upds h =
     (if is_bot mem then (players, [], None)
      else
        (case players gid of
           None \<Rightarrow> (players, [], None)
         | Some player \<Rightarrow>
             (case voice player of
                None \<Rightarrow> (players, [], None)
              | Some v \<Rightarrow>
                  if length (non_automated (members (channel v))) > 0 then (players, [], None)
                  else
                    (let player1 = player_pause player;
                         players1 = players(gid \<mapsto> player1)
                     in case wait_for 120 (check (channel v)) upds of
                          Some u \<Rightarrow>
                            (players1(gid \<mapsto> player_resume player1), [PlayerPause, PlayerResume], None)
                        | None \<Rightarrow>
                            (case (if length (songs player1) > 0
                                   then (case current player1 of
                                           None \<Rightarrow> Inl AttributeError
                                         | Some cur \<Rightarrow> Inr (Some (url cur # map url (songs player1))))
                                   else Inr None) of
                               Inl e \<Rightarrow> (players1, [PlayerPause], Some e)
                             | Inr snapshot \<Rightarrow>
                                 (let players2 = players1(gid := None)
                                  in case (if snapshot = Some [] then None else snapshot) of
                                       None \<Rightarrow>
                                         (players2, [PlayerPause, PlayerStop, PlayerResume], None)
                                     | Some us \<Rightarrow>
                                         (case post (str_join [CHR 0x0A] us) h of
                                            Inl e \<Rightarrow>
                                              (players2,
                                               [PlayerPause, PlayerStop, Post (str_join [CHR 0x0A] us)],
                                               Some e)
                                          | Inr None \<Rightarrow>
                                              (players2,
                                               [PlayerPause, PlayerStop, Post (str_join [CHR 0x0A] us),
                                                Send CouldntSaveQueue],
                                               None)
                                          | Inr (Some link) \<Rightarrow>
                                              (players2,
                                               [PlayerPause, PlayerStop, Post (str_join [CHR 0x0A] us),
                                                Send (SavedQueue link), PlayerResume],
                                               None))))))))"

section \<open>Playing a song: patterns, awaited calls, \<open>play_song\<close>\<close>

text \<open>
  The two compiled patterns \<open>URLS\<close> and \<open>YT_URLS\<close> are used through \<open>match\<close>, which
  succeeds when some prefix of the string matches. A pattern is a term of \<open>rx\<close>;
  \<open>rx_rest r s\<close> lists what can remain of \<open>s\<close> after a prefix matched \<open>r\<close>. Character
  classes are lists of inclusive ranges. Strings are byte strings here, so the patterns
  are modelled on ASCII input.
\<close>

datatype rx =
    Lit string
  | AnyChar
  | Cls "(char \<times> char) list"
  | NotCls "(char \<times> char) list"
  | Seq rx rx
  | Alt rx rx
  | Opt rx
  | Plus rx

definition in_ranges :: "char \<Rightarrow> (char \<times> char) list \<Rightarrow> bool" where
  "in_ranges c rs =
     list_ex (\<lambda>r. (of_char (fst r) :: nat) \<le> of_char c \<and> (of_char c :: nat) \<le> of_char (snd r)) rs"

definition startswith :: "string \<Rightarrow> string \<Rightarrow> bool" where
  "startswith s pre = (take (length pre) s = pre)"

definition endswith :: "string \<Rightarrow> string \<Rightarrow> bool" where
  "endswith s suf = (length suf \<le> length s \<and> drop (length s - length suf) s = suf)"

text \<open>\<open>s.strip(chars)\<close>\<close>

definition strip :: "string \<Rightarrow> string \<Rightarrow> string" where
  "strip s chars =
     rev (dropWhile (\<lambda>c. c \<in> set chars) (rev (dropWhile (\<lambda>c. c \<in> set chars) s)))"

text \<open>\<open>sub in s\<close>\<close>

fun contains :: "string \<Rightarrow> string \<Rightarrow> bool" where
  "contains [] sub = (sub = [])"
| "contains (c # cs) sub = (if startswith (c # cs) sub then True else contains cs sub)"

text \<open>
  One or more repetitions: every repetition of the patterns at hand consumes a
  character, so as many rounds as the string is long are enough.
\<close>

fun plus_rest :: "nat \<Rightarrow> (string \<Rightarrow> string list) \<Rightarrow> string \<Rightarrow> string list" where
  "plus_rest 0 f s = []"
| "plus_rest (Suc n) f s = f s @ concat (map (plus_rest n f) (f s))"

primrec rx_rest :: "rx \<Rightarrow> string \<Rightarrow> string list" where
  "rx_rest (Lit l) = (\<lambda>s. if startswith s l then [drop (length l) s] else [])"
| "rx_rest AnyChar = (\<lambda>s. case s of [] \<Rightarrow> [] | c # cs \<Rightarrow> if c = CHR 0x0A then [] else [cs])"
| "rx_rest (Cls rs) = (\<lambda>s. case s of [] \<Rightarrow> [] | c # cs \<Rightarrow> if in_ranges c rs then [cs] else [])"
| "rx_rest (NotCls rs) = (\<lambda>s. case s of [] \<Rightarrow> [] | c # cs \<Rightarrow> if in_ranges c rs then [] else [cs])"
| "rx_rest (Seq a b) = (\<lambda>s. concat (map (rx_rest b) (rx_rest a s)))"
| "rx_rest (Alt a b) = (\<lambda>s. rx_rest a s @ rx_rest b s)"
| "rx_rest (Opt a) = (\<lambda>s. rx_rest a s @ [s])"
| "rx_rest (Plus a) = (\<lambda>s. plus_rest (length s) (rx_rest a) s)"

definition re_match :: "rx \<Rightarrow> string \<Rightarrow> bool" where
  "re_match r s = (rx_rest r s \<noteq> [])"

text \<open>
  \<^verbatim>\<open>http[s]?://(?:[a-zA-Z]|[0-9]|[$-_@.&+]|[!*\(\),]|(?:%[0-9a-fA-F][0-9a-fA-F]))+\<close>
\<close>

definition URLS :: rx where
  "URLS =
     Seq (Lit ''http'') (Seq (Opt (Cls [(CHR ''s'', CHR ''s'')])) (Seq (Lit ''://'')
       (Plus
         (Alt (Cls [(CHR ''a'', CHR ''z''), (CHR ''A'', CHR ''Z'')])
         (Alt (Cls [(CHR ''0'', CHR ''9'')])
         (Alt (Cls [(CHR ''$'', CHR ''_''), (CHR ''@'', CHR ''@''), (CHR ''.'', CHR ''.''),
                    (CHR ''&'', CHR ''&''), (CHR ''+'', CHR ''+'')])
         (Alt (Cls [(CHR ''!'', CHR ''!''), (CHR ''*'', CHR ''*''), (CHR ''('', CHR ''(''),
                    (CHR '')'', CHR '')''), (CHR '','', CHR '','')])
              (Seq (Lit ''%'')
                (Seq (Cls [(CHR ''0'', CHR ''9''), (CHR ''a'', CHR ''f''), (CHR ''A'', CHR ''F'')])
                     (Cls [(CHR ''0'', CHR ''9''), (CHR ''a'', CHR ''f''), (CHR ''A'', CHR ''F'')]))))))))))"

text \<open>
  \<^verbatim>\<open>(?:https?://)?(?:www.)?(?:youtube.com|youtu.be)/(?:watch\?v=)?([^\s]+)\<close>
  The dots of the pattern are unescaped and match any character but a newline. The
  whitespace class is taken on ASCII.
\<close>

definition YT_URLS :: rx where
  "YT_URLS =
     Seq (Opt (Seq (Lit ''http'') (Seq (Opt (Lit ''s'')) (Lit ''://''))))
    (Seq (Opt (Seq (Lit ''www'') AnyChar))
    (Seq (Alt (Seq (Lit ''youtube'') (Seq AnyChar (Lit ''com'')))
              (Seq (Lit ''youtu'') (Seq AnyChar (Lit ''be''))))
    (Seq (Lit ''/'')
    (Seq (Opt (Lit ''watch?v=''))
         (Plus (NotCls [(CHR 0x09, CHR 0x0D), (CHR 0x1C, CHR 0x20)]))))))"

datatype location_type = Youtube | Soundcloud | Db | Bin

text \<open>
  An awaited call of a collaborator completes after some seconds with a result, or
  never does. Inside \<open>async with timeout(t)\<close> a call that has not completed before
  \<open>t\<close> seconds is cancelled and \<open>asyncio.TimeoutError\<close> is raised, here \<open>None\<close>. A bare
  \<open>await\<close> of a call that never completes never resumes, here \<open>None\<close> as well; the
  two are kept apart by the function used.
\<close>

datatype 'a awaited = Completes nat 'a | Never

definition under_timeout :: "nat \<Rightarrow> 'a awaited \<Rightarrow> 'a option" where
  "under_timeout t a = (case a of Never \<Rightarrow> None | Completes d x \<Rightarrow> if d < t then Some x else None)"

definition bare_await :: "'a awaited \<Rightarrow> 'a option" where
  "bare_await a = (case a of Never \<Rightarrow> None | Completes d x \<Rightarrow> Some x)"

text \<open>
  What \<open>play_song\<close> calls outside itself: the resolver functions of \<open>ytdl.Song\<close>, and the
  commands \<open>join\<close> and \<open>playbin\<close>, which it runs through \<open>ctx.invoke\<close> and which are
  taken as given here (a command yields a player, events and possibly an exception, or
  never returns).
\<close>

record collaborators =
  get_song :: "string \<Rightarrow> (error + song option) awaited"
  get_song_from_db :: "string \<Rightarrow> (error + song option) awaited"
  get_playlist :: "string \<Rightarrow> (error + song option list \<times> nat) awaited"
  join_cmd :: "player \<Rightarrow> presult option"
  playbin_cmd :: "player \<Rightarrow> string \<Rightarrow> presult option"

text \<open>The songs of a fetched playlist, in order; entries that failed are \<open>None\<close>.\<close>

fun fetched :: "song option list \<Rightarrow> song list" where
  "fetched [] = []"
| "fetched (None # xs) = fetched xs"
| "fetched (Some x # xs) = x # fetched xs"

text \<open>
  \<open>Music.fetch_yt_playlist\<close>. The playlist is awaited with no timeout around it. The
  embed that lists the songs is reduced to the numbers of songs enqueued and failed.
\<close>

definition fetch_yt_playlist :: "collaborators \<Rightarrow> player \<Rightarrow> string \<Rightarrow> presult option" where
  "fetch_yt_playlist env p u =
     (case bare_await (get_playlist env u) of
        None \<Rightarrow> None
      | Some (Inl e) \<Rightarrow>
          if e = YTDLError then Some (p, [Send (FetchingPlaylist u), Send ErrorProcessing], None)
          else Some (p, [Send (FetchingPlaylist u)], Some e)
      | Some (Inr (playlist, failed_songs)) \<Rightarrow>
          Some (p\<lparr>songs := songs p @ fetched playlist\<rparr>,
                [Send (FetchingPlaylist u),
                 Send (EnqueuedPlaylist (length (fetched playlist))
                         (failed_songs + length (filter (\<lambda>x. x = None) playlist)))],
                None))"

text \<open>
  \<open>Music.play_song\<close>. \<open>location_type.bin\<close> is read off the argument itself, so an absent
  location type raises before anything is searched. \<open>None\<close> as result: the handler
  never returns.
\<close>

definition play_song :: "collaborators \<Rightarrow> ctx \<Rightarrow> location_type option \<Rightarrow> string \<Rightarrow> result option" where
  "play_song env c location_type query =
     (case ctx_player c of
        None \<Rightarrow> Some (None, [], Some AttributeError)
      | Some p0 \<Rightarrow>
          (case (if voice p0 = None then join_cmd env p0 else Some (p0, [], None)) of
             None \<Rightarrow> None
           | Some (p1, ev1, Some e) \<Rightarrow> Some (Some p1, ev1, Some e)
           | Some (p1, ev1, None) \<Rightarrow>
               (case location_type of
                  None \<Rightarrow> Some (Some p1, ev1, Some AttributeError)
                | Some lt \<Rightarrow>
                    if lt = Bin then
                      (case playbin_cmd env p1 query of
                         None \<Rightarrow> None
                       | Some (p2, ev2, e2) \<Rightarrow> Some (Some p2, ev1 @ ev2, e2))
                    else
                      (let q = (if startswith query ''<'' \<and> endswith query ''>''
                                then strip query ''<>'' else query)
                       in if re_match URLS q \<and> re_match YT_URLS q \<and> contains q ''list=''
                          then
                            (case fetch_yt_playlist env p1 q of
                               None \<Rightarrow> None
                             | Some (p2, ev2, e2) \<Rightarrow> Some (Some p2, ev1 @ ev2, e2))
                          else
                            (case under_timeout 180
                                    (if lt = Db then get_song_from_db env q else get_song env q) of
                               None \<Rightarrow>
                                 Some (Some p1, ev1 @ [Send (Searching q), Send TimedOutFetching], None)
                             | Some (Inl e) \<Rightarrow>
                                 if e = YTDLError
                                 then Some (Some p1, ev1 @ [Send (Searching q), Send ErrorProcessing], None)
                                 else Some (Some p1, ev1 @ [Send (Searching q)], Some e)
                             | Some (Inr None) \<Rightarrow>
                                 Some (Some p1, ev1 @ [Send (Searching q), Send CouldntFetch], None)
                             | Some (Inr (Some sg)) \<Rightarrow>
                                 (let p2 = p1\<lparr>songs := songs p1 @ [sg]\<rparr>
                                  in Some (Some p2,
                                           ev1 @ [Send (Searching q)]
                                           @ (if is_playing p2 then [Send (EnqueuedSong (title sg))]
                                              else if \<not> notify p2 then [Send (NowPlayingSong (title sg))]
                                              else []),
                                           None)))))))"

section \<open>Sample states\<close>

text \<open>Concrete members, songs and players on which the theorems below are exercised.\<close>

definition sample_member :: "int \<Rightarrow> member" where
  "sample_member i = \<lparr>member_id = i, is_bot = False, manage_guild = False, roles = []\<rparr>"

definition sample_bot :: member where
  "sample_bot = \<lparr>member_id = 900, is_bot = True, manage_guild = False, roles = []\<rparr>"

definition sample_song :: "string \<Rightarrow> song" where
  "sample_song u = \<lparr>title = u, url = u, requester = 77, source_volume = 1 / 2\<rparr>"

definition sample_voice :: "member list \<Rightarrow> sink_state \<Rightarrow> voice_client" where
  "sample_voice ms st = \<lparr>channel = \<lparr>channel_id = 10, members = ms\<rparr>, sink = st, voice_volume = 1 / 2\<rparr>"

definition sample_player :: "member list \<Rightarrow> song list \<Rightarrow> (string \<rightharpoonup> int fset) \<Rightarrow> player" where
  "sample_player ms q l =
     \<lparr>voice = Some (sample_voice ms SinkPlaying),
      current = Some (sample_song ''a''), songs = q, volume = 1 / 2, loop = False,
      loop_queue = False, notify = False, text_channel = 11, p_votes = l\<rparr>"

definition sample_ctx :: "int \<Rightarrow> player \<Rightarrow> ctx" where
  "sample_ctx i p = \<lparr>author = sample_member i, guild_roles = [], ctx_player = Some p\<rparr>"

definition empty_ledger :: "string \<rightharpoonup> int fset" where
  "empty_ledger = [''skip'' \<mapsto> {||}, ''shuffle'' \<mapsto> {||}, ''remove'' \<mapsto> {||}]"

text \<open>Resolvers that never answer, and a playlist resolver that answers after 1000 seconds.\<close>

definition hanging_resolver :: collaborators where
  "hanging_resolver =
     \<lparr>get_song = (\<lambda>q. Never), get_song_from_db = (\<lambda>q. Never), get_playlist = (\<lambda>u. Never),
      join_cmd = (\<lambda>p. Some (p, [], None)), playbin_cmd = (\<lambda>p u. Some (p, [], None))\<rparr>"

definition slow_playlist_resolver :: collaborators where
  "slow_playlist_resolver =
     \<lparr>get_song = (\<lambda>q. Never), get_song_from_db = (\<lambda>q. Never),
      get_playlist = (\<lambda>u. Completes 1000 (Inr ([Some (sample_song ''b'')], 0))),
      join_cmd = (\<lambda>p. Some (p, [], None)), playbin_cmd = (\<lambda>p u. Some (p, [], None))\<rparr>"

lemmas sample_defs =
  sample_member_def sample_bot_def sample_song_def sample_voice_def sample_player_def
  sample_ctx_def empty_ledger_def

lemmas fcard_eval = fcard_finsert_if fcard_fempty

lemmas rx_eval =
  re_match_def URLS_def YT_URLS_def in_ranges_def startswith_def endswith_def strip_def

section \<open>The vote gate: thresholds, repeated votes, the ledger\<close>

text \<open>
  C1, as the code has it. The count \<open>N\<close> that \<open>Music.votes\<close> uses is the number of all
  members of the voice channel, automated ones included. For a caller who is not the
  requester of the current song, has no manage-guild permission and no role named DJ or
  dj: with \<open>N < 3\<close> the action runs at once on the unchanged player; with \<open>3 \<le> N\<close> and
  a caller who has not voted yet, the action runs exactly when the number of distinct
  voters, the caller included, reaches \<open>N - 1\<close> (for \<open>N < 5\<close>) or 3 (for \<open>N \<ge> 5\<close>), and
  then on a player whose vote set for the command is empty; otherwise the vote is
  recorded and the count is reported against that threshold.
\<close>

theorem votes_threshold:
  assumes "ctx_player c = Some p" and "current p = Some cur" and "voice p = Some v"
    and "\<not> caller_bypass c cur"
  shows "(length (members (channel v)) < 3 \<longrightarrow> votes c cmd func param = run_func func param p)
       \<and> (3 \<le> length (members (channel v)) \<longrightarrow> p_votes p cmd = Some s \<longrightarrow>
            member_id (author c) |\<notin>| s \<longrightarrow>
            votes c cmd func param =
              (if (if length (members (channel v)) < 5 then length (members (channel v)) - 1 else 3)
                    \<le> fcard (finsert (member_id (author c)) s)
               then run_func func param (p\<lparr>p_votes := (p_votes p)(cmd \<mapsto> {||})\<rparr>)
               else (Some (p\<lparr>p_votes := (p_votes p)(cmd \<mapsto> finsert (member_id (author c)) s)\<rparr>),
                     [Send (VoteAdded cmd (fcard (finsert (member_id (author c)) s))
                              (if length (members (channel v)) < 5
                               then length (members (channel v)) - 1 else 3))],
                     None)))"
  using assms by (simp add: votes_def caller_bypass_def Let_def)

text \<open>
  Four occupants, one of them the bot: the threshold is 3, and the third distinct voter
  makes the skip run on a player whose skip votes are cleared.
\<close>

theorem votes_threshold_witness:
  "votes (sample_ctx 3 (sample_player [sample_member 1, sample_member 2, sample_member 3, sample_bot]
            [sample_song ''b''] (empty_ledger(''skip'' \<mapsto> {|1, 2|}))))
     ''skip'' (skip_song player_stop) None
   = (Some (player_stop (sample_player [sample_member 1, sample_member 2, sample_member 3, sample_bot]
            [sample_song ''b''] (empty_ledger(''skip'' \<mapsto> {||})))),
      [AddReaction], None)"
  using votes_threshold[where c = "sample_ctx 3 (sample_player
            [sample_member 1, sample_member 2, sample_member 3, sample_bot]
            [sample_song ''b''] (empty_ledger(''skip'' \<mapsto> {|1, 2|})))"
        and cur = "sample_song ''a''" and s = "{|1, 2|}" and cmd = "''skip''"
        and func = "skip_song player_stop" and param = None
        and p = "sample_player [sample_member 1, sample_member 2, sample_member 3, sample_bot]
            [sample_song ''b''] (empty_ledger(''skip'' \<mapsto> {|1, 2|}))"
        and v = "sample_voice [sample_member 1, sample_member 2, sample_member 3, sample_bot] SinkPlaying"]
  by (simp add: sample_defs caller_bypass_def utils_get_def role_in_def run_func_def
        skip_song_def player_stop_def fcard_eval)

text \<open>
  C1 as stated counts the non-automated occupants. Two people and the bot are in the
  channel: the non-automated count is 2, below 3, yet the first vote to shuffle is
  recorded as 1 of 2 and the queue is not shuffled.
\<close>

theorem votes_non_automated_count_counterexample:
  "length (non_automated [sample_member 1, sample_member 2, sample_bot]) = 2
   \<and> \<not> caller_bypass (sample_ctx 1 (sample_player [sample_member 1, sample_member 2, sample_bot]
            [sample_song ''b'', sample_song ''c''] empty_ledger)) (sample_song ''a'')
   \<and> votes (sample_ctx 1 (sample_player [sample_member 1, sample_member 2, sample_bot]
            [sample_song ''b'', sample_song ''c''] empty_ledger))
       ''shuffle'' (shuffle_queue rev) None
     = (Some (sample_player [sample_member 1, sample_member 2, sample_bot]
            [sample_song ''b'', sample_song ''c''] (empty_ledger(''shuffle'' \<mapsto> {|1|}))),
        [Send (VoteAdded ''shuffle'' 1 2)], None)"
  by (simp add: sample_defs caller_bypass_def utils_get_def role_in_def votes_def
        non_automated_def Let_def fcard_eval)

text \<open>
  C8. A caller without bypass who is already in the vote set of the command, in a
  channel of at least 3 members: the reply is that they have already voted, the player
  (and with it every vote set) is unchanged, and the result does not involve the action.
\<close>

theorem votes_repeat_rejected:
  assumes "ctx_player c = Some p" and "current p = Some cur" and "voice p = Some v"
    and "\<not> caller_bypass c cur" and "3 \<le> length (members (channel v))"
    and "p_votes p cmd = Some s" and "member_id (author c) |\<in>| s"
  shows "votes c cmd func param = (Some p, [Send (AlreadyVoted cmd)], None)"
  using assms by (simp add: votes_def caller_bypass_def Let_def)

theorem votes_repeat_rejected_witness:
  "votes (sample_ctx 1 (sample_player [sample_member 1, sample_member 2, sample_member 3]
            [sample_song ''b''] (empty_ledger(''skip'' \<mapsto> {|1|}))))
     ''skip'' (skip_song player_stop) None
   = (Some (sample_player [sample_member 1, sample_member 2, sample_member 3] [sample_song ''b'']
            (empty_ledger(''skip'' \<mapsto> {|1|}))),
      [Send (AlreadyVoted ''skip'')], None)"
  by (rule votes_repeat_rejected[where cur = "sample_song ''a''" and s = "{|1|}"
        and v = "sample_voice [sample_member 1, sample_member 2, sample_member 3] SinkPlaying"])
     (simp_all add: sample_defs caller_bypass_def utils_get_def role_in_def)

text \<open>
  C4 at a concrete input. Members 1 and 2 have voted to shuffle; member 5, who holds
  the manage-guild permission, shuffles. The queue is rearranged, and the vote set for
  shuffle still holds both earlier votes: the bypass branch of \<open>Music.votes\<close> runs the
  action without clearing the set, which only the threshold branch does.
\<close>

theorem votes_bypass_keeps_ledger:
  "votes \<lparr>author = (sample_member 5)\<lparr>manage_guild := True\<rparr>, guild_roles = [],
          ctx_player = Some (sample_player
            [sample_member 1, sample_member 2, sample_member 5, sample_bot]
            [sample_song ''b'', sample_song ''c''] (empty_ledger(''shuffle'' \<mapsto> {|1, 2|})))\<rparr>
       ''shuffle'' (shuffle_queue rev) None
     = (Some (sample_player [sample_member 1, sample_member 2, sample_member 5, sample_bot]
            [sample_song ''c'', sample_song ''b''] (empty_ledger(''shuffle'' \<mapsto> {|1, 2|}))),
        [Send ShuffledSongs], None)"
  by (simp add: sample_defs utils_get_def role_in_def votes_def run_func_def
        shuffle_queue_def Let_def)

section \<open>Volume\<close>

text \<open>The range test of \<open>Music.volume\<close> never holds, so its message is never sent.\<close>

lemma music_volume_never_rejects:
  "snd (music_volume c vol) \<noteq> ([Send VolumeMustBeBetween], e)"
  by (auto simp: music_volume_def Let_def split: option.splits)

text \<open>
  C2 at a concrete input. A song is playing at volume 1/2 and the volume command is
  called with 150: the command is not rejected. The player's volume, the voice client's
  volume and the volume of the current source are all set to 3/2, and the reply is the
  ordinary confirmation.
\<close>

theorem volume_150_accepted:
  "music_volume (sample_ctx 1 (sample_player [sample_member 1, sample_bot] [] empty_ledger)) (Some 150)
   = (Some ((sample_player [sample_member 1, sample_bot] [] empty_ledger)
              \<lparr>voice := Some ((sample_voice [sample_member 1, sample_bot] SinkPlaying)
                               \<lparr>voice_volume := 3 / 2\<rparr>),
               current := Some ((sample_song ''a'')\<lparr>source_volume := 3 / 2\<rparr>),
               volume := 3 / 2\<rparr>),
      [Send (VolumeSet 150)], None)
   \<and> volume (sample_player [sample_member 1, sample_bot] [] empty_ledger) = 1 / 2"
  by (simp add: sample_defs music_volume_def is_playing_def Let_def)

section \<open>Loop modes are mutually exclusive\<close>

text \<open>
  C7. Whatever the two flags were before: after the loop command and after the loop
  queue command the two flags are not both on. Whenever the loop command passes its
  guard (something is playing, or single looping is on), it toggles the single flag and
  the queue flag is off afterwards; whenever the loop queue command passes its guards,
  it toggles the queue flag and the single flag is off afterwards. A command stopped by
  its guard changes nothing, and its own flag was off.
\<close>

theorem loop_modes_exclusive:
  assumes "ctx_player c = Some p"
  shows "(case fst (music_loop c) of
            None \<Rightarrow> False
          | Some p' \<Rightarrow> \<not> (loop p' \<and> loop_queue p'))
       \<and> (case fst (music_loop_queue c) of
            None \<Rightarrow> False
          | Some p' \<Rightarrow> \<not> (loop p' \<and> loop_queue p'))
       \<and> (is_playing p \<or> loop p \<longrightarrow>
            fst (music_loop c) = Some (p\<lparr>loop := \<not> loop p, loop_queue := False\<rparr>))
       \<and> ((is_playing p \<and> songs p \<noteq> []) \<or> loop_queue p \<longrightarrow>
            fst (music_loop_queue c) = Some (p\<lparr>loop_queue := \<not> loop_queue p, loop := False\<rparr>))"
  using assms
  by (auto simp: music_loop_def music_loop_queue_def Let_def split: option.splits)

text \<open>
  With the queue loop on, the loop command turns single looping on and the queue loop
  off; with single looping on, the loop queue command does the converse.
\<close>

theorem loop_modes_exclusive_witness:
  "fst (music_loop (sample_ctx 1
          ((sample_player [sample_member 1, sample_bot] [sample_song ''b''] empty_ledger)
             \<lparr>loop_queue := True\<rparr>)))
     = Some ((sample_player [sample_member 1, sample_bot] [sample_song ''b''] empty_ledger)
               \<lparr>loop := True, loop_queue := False\<rparr>)
   \<and> fst (music_loop_queue (sample_ctx 1
          ((sample_player [sample_member 1, sample_bot] [sample_song ''b''] empty_ledger)
             \<lparr>loop := True\<rparr>)))
     = Some ((sample_player [sample_member 1, sample_bot] [sample_song ''b''] empty_ledger)
               \<lparr>loop_queue := True, loop := False\<rparr>)"
  using loop_modes_exclusive[where c = "sample_ctx 1
            ((sample_player [sample_member 1, sample_bot] [sample_song ''b''] empty_ledger)
               \<lparr>loop_queue := True\<rparr>)"
          and p = "(sample_player [sample_member 1, sample_bot] [sample_song ''b''] empty_ledger)
               \<lparr>loop_queue := True\<rparr>"]
        loop_modes_exclusive[where c = "sample_ctx 1
            ((sample_player [sample_member 1, sample_bot] [sample_song ''b''] empty_ledger)
               \<lparr>loop := True\<rparr>)"
          and p = "(sample_player [sample_member 1, sample_bot] [sample_song ''b''] empty_ledger)
               \<lparr>loop := True\<rparr>"]
  by (simp add: sample_defs is_playing_def)

section \<open>Which commands are gated by privilege\<close>

lemma p_votes_player_pause: "p_votes (player_pause p) = p_votes p"
  by (simp add: player_pause_def split: option.splits)

lemma p_votes_player_resume: "p_votes (player_resume p) = p_votes p"
  by (simp add: player_resume_def split: option.splits)

lemma pause_callback_ledger:
  "map_option p_votes (fst (pause_callback c)) = map_option p_votes (ctx_player c)"
  by (simp add: pause_callback_def Let_def p_votes_player_pause split: option.splits)

lemma resume_callback_ledger:
  "map_option p_votes (fst (resume_callback c)) = map_option p_votes (ctx_player c)"
  by (simp add: resume_callback_def Let_def p_votes_player_resume split: option.splits)

lemma stop_callback_ledger:
  "map_option p_votes (fst (stop_callback c)) = map_option p_votes (ctx_player c)"
  by (simp add: stop_callback_def Let_def split: option.splits)

lemma music_volume_ledger:
  "map_option p_votes (fst (music_volume c vol)) = map_option p_votes (ctx_player c)"
  by (simp add: music_volume_def Let_def split: option.splits)

lemma music_volume_any_caller:
  "music_volume (c\<lparr>author := a, guild_roles := rs\<rparr>) vol = music_volume c vol"
  by (simp add: music_volume_def)

text \<open>
  C6, as the code has it. Pause, resume and stop run their callback exactly when the
  caller satisfies \<open>is_dj\<close> (manage-guild permission, a role named DJ or dj, or the
  developer id) and end with a check failure on the unchanged player otherwise. None of
  pause, resume, stop and volume changes any vote set. The volume command carries no
  check: its outcome is the same whoever the caller is and whatever the guild's roles.
\<close>

theorem pause_resume_stop_gated_volume_open:
  "music_pause c = (if is_dj c then pause_callback c else (ctx_player c, [], Some CheckFailure))
   \<and> music_resume c = (if is_dj c then resume_callback c else (ctx_player c, [], Some CheckFailure))
   \<and> music_stop c = (if is_dj c then stop_callback c else (ctx_player c, [], Some CheckFailure))
   \<and> map_option p_votes (fst (music_pause c)) = map_option p_votes (ctx_player c)
   \<and> map_option p_votes (fst (music_resume c)) = map_option p_votes (ctx_player c)
   \<and> map_option p_votes (fst (music_stop c)) = map_option p_votes (ctx_player c)
   \<and> map_option p_votes (fst (music_volume c vol)) = map_option p_votes (ctx_player c)
   \<and> music_volume (c\<lparr>author := a, guild_roles := rs\<rparr>) vol = music_volume c vol"
  by (simp add: music_pause_def music_resume_def music_stop_def commands_check_def
        pause_callback_ledger resume_callback_ledger stop_callback_ledger
        music_volume_ledger music_volume_any_caller)

text \<open>
  A member without privilege cannot pause; the same member with the manage-guild
  permission pauses the current song.
\<close>

theorem pause_resume_stop_gated_volume_open_witness:
  "music_pause (sample_ctx 1 (sample_player [sample_member 1, sample_bot] [] empty_ledger))
     = (Some (sample_player [sample_member 1, sample_bot] [] empty_ledger), [], Some CheckFailure)
   \<and> music_pause ((sample_ctx 1 (sample_player [sample_member 1, sample_bot] [] empty_ledger))
                     \<lparr>author := (sample_member 1)\<lparr>manage_guild := True\<rparr>\<rparr>)
     = (Some ((sample_player [sample_member 1, sample_bot] [] empty_ledger)
               \<lparr>voice := Some (sample_voice [sample_member 1, sample_bot] SinkPaused)\<rparr>),
        [PlayerPause, Send (PausedSong ''a'')], None)"
  using pause_resume_stop_gated_volume_open[where c = "sample_ctx 1
            (sample_player [sample_member 1, sample_bot] [] empty_ledger)"]
        pause_resume_stop_gated_volume_open[where c = "(sample_ctx 1
            (sample_player [sample_member 1, sample_bot] [] empty_ledger))
               \<lparr>author := (sample_member 1)\<lparr>manage_guild := True\<rparr>\<rparr>"]
  by (simp add: sample_defs is_dj_def dev_def utils_get_def role_in_def pause_callback_def
        is_playing_def player_pause_def)

text \<open>
  C6 as stated has the volume command privilege-gated. A member who does not satisfy
  \<open>is_dj\<close> sets the volume to 30 while a song is playing, and the command takes effect.
\<close>

theorem volume_unprivileged_counterexample:
  "\<not> is_dj (sample_ctx 1 (sample_player [sample_member 1, sample_bot] [] empty_ledger))
   \<and> music_volume (sample_ctx 1 (sample_player [sample_member 1, sample_bot] [] empty_ledger)) (Some 30)
     = (Some ((sample_player [sample_member 1, sample_bot] [] empty_ledger)
              \<lparr>voice := Some ((sample_voice [sample_member 1, sample_bot] SinkPlaying)
                               \<lparr>voice_volume := 3 / 10\<rparr>),
               current := Some ((sample_song ''a'')\<lparr>source_volume := 3 / 10\<rparr>),
               volume := 3 / 10\<rparr>),
        [Send (VolumeSet 30)], None)"
  by (simp add: sample_defs is_dj_def dev_def utils_get_def role_in_def music_volume_def
        is_playing_def Let_def)

section \<open>The developer id\<close>

text \<open>
  C10, as the code has it. For the caller with id 224513210471022592 the predicate
  \<open>is_dj\<close> holds, whatever the guild, the caller's roles and permissions; so every
  command guarded by the \<open>is_dj\<close> check runs its callback for that caller, pause, resume
  and stop among them.
\<close>

theorem dev_passes_is_dj:
  assumes "member_id (author c) = 224513210471022592"
  shows "is_dj c \<and> commands_check is_dj callback c = callback c
       \<and> music_pause c = pause_callback c \<and> music_resume c = resume_callback c
       \<and> music_stop c = stop_callback c"
  using assms
  by (simp add: is_dj_def dev_def commands_check_def music_pause_def music_resume_def
        music_stop_def Let_def)

text \<open>The developer, without any role or permission, stops the player.\<close>

theorem dev_passes_is_dj_witness:
  "is_dj (sample_ctx 224513210471022592 (sample_player
            [sample_member 224513210471022592, sample_member 2, sample_bot]
            [sample_song ''b''] empty_ledger))
   \<and> music_stop (sample_ctx 224513210471022592 (sample_player
            [sample_member 224513210471022592, sample_member 2, sample_bot]
            [sample_song ''b''] empty_ledger))
     = (Some ((sample_player [sample_member 224513210471022592, sample_member 2, sample_bot]
                 [] empty_ledger)
               \<lparr>voice := Some (sample_voice
                   [sample_member 224513210471022592, sample_member 2, sample_bot] SinkIdle)\<rparr>),
        [VoiceStop, Send StoppedAndCleared], None)"
  using dev_passes_is_dj[where c = "sample_ctx 224513210471022592 (sample_player
            [sample_member 224513210471022592, sample_member 2, sample_bot]
            [sample_song ''b''] empty_ledger)"]
  by (simp add: sample_defs stop_callback_def is_playing_def Let_def)

text \<open>
  C10 as stated extends the bypass to the vote-gated commands. \<open>Music.votes\<close> does not
  test the developer id: in a channel of three members the developer's shuffle is
  recorded as vote 1 of 2 and the queue keeps its order.
\<close>

theorem dev_vote_gated_counterexample:
  "is_dj (sample_ctx 224513210471022592 (sample_player
            [sample_member 224513210471022592, sample_member 2, sample_bot]
            [sample_song ''b'', sample_song ''c''] empty_ledger))
   \<and> music_shuffle rev (sample_ctx 224513210471022592 (sample_player
            [sample_member 224513210471022592, sample_member 2, sample_bot]
            [sample_song ''b'', sample_song ''c''] empty_ledger))
     = (Some (sample_player [sample_member 224513210471022592, sample_member 2, sample_bot]
            [sample_song ''b'', sample_song ''c'']
            (empty_ledger(''shuffle'' \<mapsto> {|224513210471022592|}))),
        [Send (VoteAdded ''shuffle'' 1 2)], None)"
  by (simp add: sample_defs is_dj_def dev_def music_shuffle_def votes_def utils_get_def
        role_in_def Let_def fcard_eval)

section \<open>Inactivity: rejoin and timeout\<close>

lemma songs_player_pause: "songs (player_pause p) = songs p"
  by (simp add: player_pause_def split: option.splits)

lemma current_player_pause: "current (player_pause p) = current p"
  by (simp add: player_pause_def split: option.splits)

lemma wait_for_rejoin:
  assumes "(t, u) \<in> set upds" and "t < T" and "chk u"
  shows "wait_for T chk upds \<noteq> None"
  using assms by (auto simp: wait_for_def find_None_iff)

lemma wait_for_timeout:
  assumes "\<forall>tu \<in> set upds. \<not> (fst tu < T \<and> chk (snd tu))"
  shows "wait_for T chk upds = None"
  using assms by (auto simp: wait_for_def find_None_iff)

text \<open>
  C5. A member who is not a bot triggers the handler, the guild has a connected player
  and the channel holds no non-automated member. If, less than 120 seconds into the
  wait, an update arrives of a non-automated member whose new channel is the player's
  channel, then the handler pauses and then resumes the player: it issues no
  persistence call, raises nothing and leaves the player in the registry. A player that
  was playing is paused in between and is back in the state it had; a player that was
  paused is playing afterwards.
\<close>

theorem rejoin_resumes:
  assumes "\<not> is_bot mem" and "players gid = Some player" and "voice player = Some v"
    and "non_automated (members (channel v)) = []"
    and "(t, u) \<in> set upds" and "t < 120" and "check (channel v) u"
  shows "on_voice_leave players gid mem upds h
           = (players(gid \<mapsto> player_resume (player_pause player)), [PlayerPause, PlayerResume], None)
       \<and> (sink v = SinkPlaying \<longrightarrow>
            player_pause player = player\<lparr>voice := Some (v\<lparr>sink := SinkPaused\<rparr>)\<rparr>
            \<and> player_resume (player_pause player) = player)
       \<and> (sink v = SinkPaused \<longrightarrow>
            player_resume (player_pause player) = player\<lparr>voice := Some (v\<lparr>sink := SinkPlaying\<rparr>)\<rparr>)"
proof -
  from assms(5-7) have "wait_for 120 (check (channel v)) upds \<noteq> None"
    by (rule wait_for_rejoin)
  then obtain u' where w: "wait_for 120 (check (channel v)) upds = Some u'"
    by auto
  have run: "on_voice_leave players gid mem upds h
           = (players(gid \<mapsto> player_resume (player_pause player)), [PlayerPause, PlayerResume], None)"
    using assms(1-4) w by (simp add: on_voice_leave_def Let_def)
  have play: "sink v = SinkPlaying \<longrightarrow>
            player_pause player = player\<lparr>voice := Some (v\<lparr>sink := SinkPaused\<rparr>)\<rparr>
            \<and> player_resume (player_pause player) = player"
    using assms(3) by (simp add: player_pause_def player_resume_def)
  have paused: "sink v = SinkPaused \<longrightarrow>
            player_resume (player_pause player) = player\<lparr>voice := Some (v\<lparr>sink := SinkPlaying\<rparr>)\<rparr>"
    using assms(3) by (simp add: player_pause_def player_resume_def)
  from run play paused show ?thesis by blast
qed

text \<open>The last listener comes back after 30 seconds: the registry is as it was.\<close>

theorem rejoin_resumes_witness:
  "on_voice_leave [5 \<mapsto> sample_player [sample_bot] [sample_song ''b''] empty_ledger] 5 (sample_member 1)
      [(30, \<lparr>vu_member = sample_member 1, vu_before = None,
              vu_after = Some \<lparr>channel_id = 10, members = [sample_member 1, sample_bot]\<rparr>\<rparr>)]
      HttpFailed
   = ([5 \<mapsto> sample_player [sample_bot] [sample_song ''b''] empty_ledger],
      [PlayerPause, PlayerResume], None)"
  using rejoin_resumes[where players = "[5 \<mapsto> sample_player [sample_bot] [sample_song ''b''] empty_ledger]"
      and gid = 5 and mem = "sample_member 1" and h = HttpFailed
      and player = "sample_player [sample_bot] [sample_song ''b''] empty_ledger"
      and v = "sample_voice [sample_bot] SinkPlaying" and t = 30
      and u = "\<lparr>vu_member = sample_member 1, vu_before = None,
              vu_after = Some \<lparr>channel_id = 10, members = [sample_member 1, sample_bot]\<rparr>\<rparr>"
      and upds = "[(30, \<lparr>vu_member = sample_member 1, vu_before = None,
              vu_after = Some \<lparr>channel_id = 10, members = [sample_member 1, sample_bot]\<rparr>\<rparr>)]"]
  by (simp add: sample_defs non_automated_def check_def player_pause_def player_resume_def)

text \<open>
  C3, as the code has it. Same situation, but no update of a non-automated member
  entering the player's channel arrives before 120 seconds. With an empty queue the
  player is stopped and removed from the registry and no persistence call is issued,
  whether or not a song is current. With a non-empty queue and a current song the player
  is stopped and removed first, then one persistence call is issued whose text is the
  URL of the current song followed by the URLs of the queue in order, one per line; the
  removal holds whether the call fails or returns a link.
\<close>

theorem timeout_destroys:
  assumes "\<not> is_bot mem" and "players gid = Some player" and "voice player = Some v"
    and "non_automated (members (channel v)) = []"
    and "\<forall>tu \<in> set upds. \<not> (fst tu < 120 \<and> check (channel v) (snd tu))"
  shows "(songs player = [] \<longrightarrow>
            on_voice_leave players gid mem upds h
              = (players(gid := None), [PlayerPause, PlayerStop, PlayerResume], None))
       \<and> (songs player \<noteq> [] \<longrightarrow> current player = Some cur \<longrightarrow>
            on_voice_leave players gid mem upds h
              = (players(gid := None),
                 [PlayerPause, PlayerStop, Post (str_join [CHR 0x0A] (url cur # map url (songs player)))]
                 @ (case h of HttpFailed \<Rightarrow> []
                    | HttpKey k \<Rightarrow> [Send (SavedQueue (''https://mystb.in/'' @ k)), PlayerResume]),
                 (case h of HttpFailed \<Rightarrow> Some PostError | HttpKey k \<Rightarrow> None)))"
proof -
  have w: "wait_for 120 (check (channel v)) upds = None"
    using assms(5) by (rule wait_for_timeout)
  show ?thesis
    using assms(1-4) w
    by (cases h)
       (simp_all add: on_voice_leave_def Let_def songs_player_pause current_player_pause post_def)
qed

text \<open>
  The listener comes back only after 130 seconds and the paste service fails: the
  player is gone from the registry, and the call carried the three URLs in order.
\<close>

theorem timeout_destroys_witness:
  "on_voice_leave [5 \<mapsto> sample_player [sample_bot] [sample_song ''b'', sample_song ''c''] empty_ledger]
      5 (sample_member 1)
      [(130, \<lparr>vu_member = sample_member 1, vu_before = None,
               vu_after = Some \<lparr>channel_id = 10, members = [sample_member 1, sample_bot]\<rparr>\<rparr>)]
      HttpFailed
   = (Map.empty, [PlayerPause, PlayerStop, Post (''a'' @ [CHR 0x0A] @ ''b'' @ [CHR 0x0A] @ ''c'')],
      Some PostError)"
  using timeout_destroys[where players = "[5 \<mapsto> sample_player [sample_bot]
            [sample_song ''b'', sample_song ''c''] empty_ledger]"
      and gid = 5 and mem = "sample_member 1" and h = HttpFailed
      and player = "sample_player [sample_bot] [sample_song ''b'', sample_song ''c''] empty_ledger"
      and v = "sample_voice [sample_bot] SinkPlaying" and cur = "sample_song ''a''"
      and upds = "[(130, \<lparr>vu_member = sample_member 1, vu_before = None,
              vu_after = Some \<lparr>channel_id = 10, members = [sample_member 1, sample_bot]\<rparr>\<rparr>)]"]
  by (simp add: sample_defs non_automated_def)

text \<open>
  C3 as stated asks for a persistence call whenever the current song plus the queue is
  non-empty. A song is current and the queue is empty: the player is destroyed and no
  persistence call is issued.
\<close>

theorem timeout_snapshot_counterexample:
  "current (sample_player [sample_bot] [] empty_ledger) = Some (sample_song ''a'')
   \<and> on_voice_leave [5 \<mapsto> sample_player [sample_bot] [] empty_ledger] 5 (sample_member 1) []
        (HttpKey ''k'')
     = (Map.empty, [PlayerPause, PlayerStop, PlayerResume], None)"
  by (simp add: sample_defs on_voice_leave_def non_automated_def wait_for_def player_pause_def
        Let_def)

section \<open>The timeout around the search\<close>

text \<open>
  C9, as the code has it. The player is connected, or \<open>join\<close> has connected it without
  an exception; the location type is not the bin; the query, stripped of its angle
  brackets, is not a playlist URL. If the resolver call for the query (\<open>get_song\<close>, or
  \<open>get_song_from_db\<close> for the database) never completes or completes only after 180
  seconds or more, then \<open>play_song\<close> returns, without an exception, after telling the
  invoker that the search started and that fetching timed out; the player, and with it
  the queue, is the one the search started from.
\<close>

theorem play_song_timeout:
  assumes "ctx_player c = Some p"
    and "(if voice p = None then join_cmd env p else Some (p, [], None)) = Some (pj, evj, None)"
    and "lt \<noteq> Bin"
    and "q = (if startswith query ''<'' \<and> endswith query ''>'' then strip query ''<>'' else query)"
    and "\<not> (re_match URLS q \<and> re_match YT_URLS q \<and> contains q ''list='')"
    and "a = (if lt = Db then get_song_from_db env q else get_song env q)"
    and "a = Never \<or> (\<exists>d x. a = Completes d x \<and> 180 \<le> d)"
  shows "play_song env c (Some lt) query
           = Some (Some pj, evj @ [Send (Searching q), Send TimedOutFetching], None)"
proof -
  from assms(7) have "under_timeout 180 a = None"
    by (auto simp: under_timeout_def)
  with assms(6)
  have t: "under_timeout 180 (if lt = Db then get_song_from_db env q else get_song env q) = None"
    by simp
  have j: "(if voice p = None then join_cmd env p else Some (p, [], None)) = Some (pj, evj, None)"
    by (rule assms(2))
  have nb: "(re_match URLS q \<and> re_match YT_URLS q \<and> contains q ''list='') = False"
    using assms(5) by blast
  have b: "(lt = Bin) = False"
    using assms(3) by simp
  show ?thesis
    unfolding play_song_def assms(1) option.case j prod.case assms(4)[symmetric] Let_def b nb t
    by simp
qed

text \<open>A search in angle brackets while the resolver never answers.\<close>

theorem play_song_timeout_witness:
  "play_song hanging_resolver (sample_ctx 1 (sample_player [sample_member 1, sample_bot] [] empty_ledger))
      (Some Youtube) ''<some song>''
   = Some (Some (sample_player [sample_member 1, sample_bot] [] empty_ledger),
           [Send (Searching ''some song''), Send TimedOutFetching], None)"
  using play_song_timeout[where env = hanging_resolver
      and c = "sample_ctx 1 (sample_player [sample_member 1, sample_bot] [] empty_ledger)"
      and p = "sample_player [sample_member 1, sample_bot] [] empty_ledger"
      and pj = "sample_player [sample_member 1, sample_bot] [] empty_ledger" and evj = "[]"
      and lt = Youtube and query = "''<some song>''" and q = "''some song''" and a = Never]
  by (simp add: sample_defs hanging_resolver_def rx_eval)

text \<open>
  C9 as stated bounds every resolution call by the timeout. For a playlist URL the
  resolver is awaited bare: a playlist that resolves after 1000 seconds is still
  enqueued, with no timeout message, and a resolver that never answers keeps
  \<open>play_song\<close> from returning at all.
\<close>

theorem playlist_unbounded_counterexample:
  "get_playlist slow_playlist_resolver ''https://youtube.com/playlist?list=PL1''
     = Completes 1000 (Inr ([Some (sample_song ''b'')], 0))
   \<and> play_song slow_playlist_resolver
        (sample_ctx 1 (sample_player [sample_member 1, sample_bot] [] empty_ledger))
        (Some Youtube) ''https://youtube.com/playlist?list=PL1''
     = Some (Some (sample_player [sample_member 1, sample_bot] [sample_song ''b''] empty_ledger),
             [Send (FetchingPlaylist ''https://youtube.com/playlist?list=PL1''),
              Send (EnqueuedPlaylist 1 0)], None)
   \<and> play_song hanging_resolver
        (sample_ctx 1 (sample_player [sample_member 1, sample_bot] [] empty_ledger))
        (Some Youtube) ''https://youtube.com/playlist?list=PL1''
     = None"
  by (simp add: sample_defs slow_playlist_resolver_def hanging_resolver_def play_song_def
        fetch_yt_playlist_def bare_await_def rx_eval Let_def)

end
